theory Spec2Isabelle
  imports Main "HOL-Library.Word"
begin

unbundle bit_operations_syntax

section \<open>Python values: strings, bytes, exceptions\<close>

text \<open>
  A Python \<open>str\<close> is a sequence of Unicode code points, a \<open>bytes\<close> object a sequence
  of 8-bit values. The source's string literals contain Chinese text, so code points are
  natural numbers and an ASCII literal is lifted with \<open>ascii\<close>.
\<close>

type_synonym pystr = "nat list"
type_synonym pybytes = "8 word list"

definition ascii :: "string \<Rightarrow> pystr" where
  "ascii s = map of_char s"

text \<open>
  Exceptions. Only instances of \<open>Exception\<close> are modelled (everything the handlers
  \<open>except Exception\<close> of the source catch); \<open>ImportError\<close> is told apart because the
  source has a handler for it. Each carries the text that \<open>str(e)\<close> returns.
  \<open>UnicodeDecodeError\<close> is the \<open>None\<close> of the decoders below.
\<close>

datatype py_exc = ImportError pystr | Exception pystr

fun exc_str :: "py_exc \<Rightarrow> pystr" where
  "exc_str (ImportError m) = m"
| "exc_str (Exception m) = m"

fun is_ImportError :: "py_exc \<Rightarrow> bool" where
  "is_ImportError (ImportError m) = True"
| "is_ImportError (Exception m) = False"

definition is_Exception :: "py_exc \<Rightarrow> bool" where
  "is_Exception e = True"

text \<open>\<open>try: body except C as e: handler\<close>, where \<open>catches\<close> decides \<open>isinstance(e, C)\<close>.\<close>

definition try_except ::
  "(py_exc + 'a) \<Rightarrow> (py_exc \<Rightarrow> bool) \<Rightarrow> (py_exc \<Rightarrow> py_exc + 'a) \<Rightarrow> py_exc + 'a" where
  "try_except body catches handler =
     (case body of
        Inr v \<Rightarrow> Inr v
      | Inl e \<Rightarrow> if catches e then handler e else Inl e)"

subsection \<open>The parts of the Python runtime the source calls\<close>

text \<open>
  What the interpreter and the optional libraries provide, and the repository does not
  contain, is a parameter of the model:
  \<^item> \<open>gbk_codec\<close>: \<open>bytes.decode("gbk")\<close>, \<open>None\<close> when it raises \<open>UnicodeDecodeError\<close>
    (the conversion table is part of the interpreter);
  \<^item> \<open>unicode_lower\<close>: \<open>str.lower()\<close> on a string with a non-ASCII code point
    (the Unicode case mapping);
  \<^item> \<open>PyPDF2\<close>: \<open>None\<close> when the library is not installed; otherwise reading a PDF gives
    the text of each page, or raises;
  \<^item> \<open>python_docx\<close>: the same for the paragraphs of a Word document.
\<close>

record runtime =
  gbk_codec :: "pybytes \<Rightarrow> pystr option"
  unicode_lower :: "pystr \<Rightarrow> pystr"
  PyPDF2 :: "(pybytes \<Rightarrow> py_exc + pystr list) option"
  python_docx :: "(pybytes \<Rightarrow> py_exc + pystr list) option"

subsection \<open>String methods\<close>

definition is_ascii :: "pystr \<Rightarrow> bool" where
  "is_ascii s = list_all (\<lambda>c. c < 128) s"

definition ascii_lower :: "nat \<Rightarrow> nat" where
  "ascii_lower c = (if 65 \<le> c \<and> c \<le> 90 then c + 32 else c)"

definition str_lower :: "runtime \<Rightarrow> pystr \<Rightarrow> pystr" where
  "str_lower rt s = (if is_ascii s then map ascii_lower s else unicode_lower rt s)"

definition startswith :: "pystr \<Rightarrow> pystr \<Rightarrow> bool" where
  "startswith s p = (take (length p) s = p)"

definition endswith :: "pystr \<Rightarrow> pystr \<Rightarrow> bool" where
  "endswith s p = (length p \<le> length s \<and> drop (length s - length p) s = p)"

text \<open>\<open>str.isspace\<close> of one code point: the white space of the Unicode database.\<close>

definition isspace :: "nat \<Rightarrow> bool" where
  "isspace c =
     ((9 \<le> c \<and> c \<le> 13) \<or> (28 \<le> c \<and> c \<le> 32) \<or> c = 0x85 \<or> c = 0xA0 \<or> c = 0x1680
      \<or> (0x2000 \<le> c \<and> c \<le> 0x200A) \<or> c = 0x2028 \<or> c = 0x2029 \<or> c = 0x202F
      \<or> c = 0x205F \<or> c = 0x3000)"

definition strip :: "pystr \<Rightarrow> pystr" where
  "strip s = rev (dropWhile isspace (rev (dropWhile isspace s)))"

text \<open>\<open>str(n)\<close> of a natural number.\<close>

function decimal :: "nat \<Rightarrow> pystr" where
  "decimal n = (if n < 10 then [48 + n] else decimal (n div 10) @ [48 + n mod 10])"
  by pat_completeness auto
termination
  by (relation "measure id") auto

subsection \<open>Decoding bytes\<close>

text \<open>
  \<open>bytes.decode(codec)\<close> with the default strict error handling: the string, or \<open>None\<close>
  for \<open>UnicodeDecodeError\<close>.
\<close>

definition is_cont :: "8 word \<Rightarrow> bool" where
  "is_cont b = (0x80 \<le> b \<and> b \<le> 0xBF)"

definition utf8_second_ok :: "8 word \<Rightarrow> 8 word \<Rightarrow> bool" where
  "utf8_second_ok b0 b1 =
     (if b0 = 0xE0 then 0xA0 \<le> b1 \<and> b1 \<le> 0xBF
      else if b0 = 0xED then 0x80 \<le> b1 \<and> b1 \<le> 0x9F
      else if b0 = 0xF0 then 0x90 \<le> b1 \<and> b1 \<le> 0xBF
      else if b0 = 0xF4 then 0x80 \<le> b1 \<and> b1 \<le> 0x8F
      else is_cont b1)"

fun decode_utf8 :: "pybytes \<Rightarrow> pystr option" where
  "decode_utf8 [] = Some []"
| "decode_utf8 (b0 # bs) =
     (if b0 < 0x80 then map_option ((#) (unat b0)) (decode_utf8 bs)
      else if 0xC2 \<le> b0 \<and> b0 \<le> 0xDF then
        (case bs of
           b1 # r \<Rightarrow>
             if is_cont b1
             then map_option ((#) ((unat b0 - 0xC0) * 64 + (unat b1 - 0x80))) (decode_utf8 r)
             else None
         | _ \<Rightarrow> None)
      else if 0xE0 \<le> b0 \<and> b0 \<le> 0xEF then
        (case bs of
           b1 # b2 # r \<Rightarrow>
             if utf8_second_ok b0 b1 \<and> is_cont b2
             then map_option
                    ((#) ((unat b0 - 0xE0) * 4096 + (unat b1 - 0x80) * 64 + (unat b2 - 0x80)))
                    (decode_utf8 r)
             else None
         | _ \<Rightarrow> None)
      else if 0xF0 \<le> b0 \<and> b0 \<le> 0xF4 then
        (case bs of
           b1 # b2 # b3 # r \<Rightarrow>
             if utf8_second_ok b0 b1 \<and> is_cont b2 \<and> is_cont b3
             then map_option
                    ((#) ((unat b0 - 0xF0) * 262144 + (unat b1 - 0x80) * 4096
                          + (unat b2 - 0x80) * 64 + (unat b3 - 0x80)))
                    (decode_utf8 r)
             else None
         | _ \<Rightarrow> None)
      else None)"

definition decode_gbk :: "runtime \<Rightarrow> pybytes \<Rightarrow> pystr option" where
  "decode_gbk rt bs = gbk_codec rt bs"

definition decode_latin1 :: "pybytes \<Rightarrow> pystr option" where
  "decode_latin1 bs = Some (map unat bs)"

subsection \<open>Base64\<close>

text \<open>
  \<open>base64.b64decode(s)\<close> of the standard library on a \<open>str\<close>, with its defaults
  (\<open>validate=False\<close>): a string with a non-ASCII code point is a \<open>ValueError\<close>; otherwise
  characters outside the alphabet are skipped, groups of four are turned into three bytes,
  reading stops at a complete padding, and an incomplete last group is a
  \<open>binascii.Error\<close>.
\<close>

definition b64_value :: "nat \<Rightarrow> 8 word option" where
  "b64_value c =
     (if 65 \<le> c \<and> c \<le> 90 then Some (of_nat (c - 65))
      else if 97 \<le> c \<and> c \<le> 122 then Some (of_nat (c - 71))
      else if 48 \<le> c \<and> c \<le> 57 then Some (of_nat (c + 4))
      else if c = 43 then Some 62
      else if c = 47 then Some 63
      else None)"

fun a2b_base64 :: "pystr \<Rightarrow> nat \<Rightarrow> 8 word \<Rightarrow> nat \<Rightarrow> pybytes \<Rightarrow> py_exc + pybytes" where
  "a2b_base64 [] quad_pos leftchar pads out =
     (if quad_pos \<noteq> 0 then
        (if quad_pos = 1 then
           Inl (Exception (ascii ''Invalid base64-encoded string: number of data characters (''
                  @ decimal (length out div 3 * 4 + 1)
                  @ ascii '') cannot be 1 more than a multiple of 4''))
         else Inl (Exception (ascii ''Incorrect padding'')))
      else Inr out)"
| "a2b_base64 (c # cs) quad_pos leftchar pads out =
     (if c = 61 then
        (if quad_pos \<ge> 2 \<and> quad_pos + (pads + 1) \<ge> 4 then Inr out
         else a2b_base64 cs quad_pos leftchar (if quad_pos \<ge> 2 then pads + 1 else pads) out)
      else
        (case b64_value c of
           None \<Rightarrow> a2b_base64 cs quad_pos leftchar pads out
         | Some this_ch \<Rightarrow>
             if quad_pos = 0 then a2b_base64 cs 1 this_ch 0 out
             else if quad_pos = 1 then
               a2b_base64 cs 2 (this_ch AND 0x0F) 0
                 (out @ [push_bit 2 leftchar OR drop_bit 4 this_ch])
             else if quad_pos = 2 then
               a2b_base64 cs 3 (this_ch AND 0x03) 0
                 (out @ [push_bit 4 leftchar OR drop_bit 2 this_ch])
             else
               a2b_base64 cs 0 0 0 (out @ [push_bit 6 leftchar OR this_ch])))"

definition b64decode :: "pystr \<Rightarrow> py_exc + pybytes" where
  "b64decode s =
     (if is_ascii s then a2b_base64 s 0 0 0 []
      else Inl (Exception (ascii ''string argument should contain only ASCII characters'')))"

section \<open>The document parsers (src/common/document\_parsers.py)\<close>

subsection \<open>PDFParser\<close>

text \<open>The placeholder that names the missing library, and the one for any other error.\<close>

definition pdf_needs_library :: pystr where
  "pdf_needs_library =
     ascii ''[PDF '' @ [0x5904, 0x7406, 0x9700, 0x8981, 0x5B89, 0x88C5]
     @ ascii '' PyPDF2 '' @ [0x5E93] @ ascii '']''"

definition pdf_error :: "py_exc \<Rightarrow> pystr" where
  "pdf_error e =
     ascii ''[PDF '' @ [0x5904, 0x7406, 0x9519, 0x8BEF] @ ascii '': '' @ exc_str e @ ascii '']''"

text \<open>
  The loop \<open>text += page.extract_text() + "\n"\<close> over the pages (and over the
  paragraphs in \<open>DocxParser\<close>).
\<close>

fun join_lines :: "pystr \<Rightarrow> pystr list \<Rightarrow> pystr" where
  "join_lines text [] = text"
| "join_lines text (page # pages) = join_lines (text @ page @ [10]) pages"

definition PDFParser_parse :: "runtime \<Rightarrow> pybytes \<Rightarrow> pystr \<Rightarrow> py_exc + pystr" where
  "PDFParser_parse rt file_bytes filename =
     try_except
       (try_except
          (case PyPDF2 rt of
             None \<Rightarrow> Inl (ImportError (ascii ''No module named PyPDF2''))
           | Some pdf_reader \<Rightarrow>
               (case pdf_reader file_bytes of
                  Inl e \<Rightarrow> Inl e
                | Inr pages \<Rightarrow> Inr (strip (join_lines [] pages))))
          is_ImportError
          (\<lambda>e. Inr pdf_needs_library))
       is_Exception
       (\<lambda>e. Inr (pdf_error e))"

definition PDFParser_supports :: "runtime \<Rightarrow> pystr \<Rightarrow> pystr \<Rightarrow> bool" where
  "PDFParser_supports rt mime_type filename =
     (mime_type = ascii ''application/pdf'' \<or> endswith (str_lower rt filename) (ascii ''.pdf''))"

subsection \<open>DocxParser\<close>

definition docx_needs_library :: pystr where
  "docx_needs_library =
     ascii ''[DOCX '' @ [0x5904, 0x7406, 0x9700, 0x8981, 0x5B89, 0x88C5]
     @ ascii '' python-docx '' @ [0x5E93] @ ascii '']''"

definition docx_error :: "py_exc \<Rightarrow> pystr" where
  "docx_error e =
     ascii ''[DOCX '' @ [0x5904, 0x7406, 0x9519, 0x8BEF] @ ascii '': '' @ exc_str e @ ascii '']''"

definition DocxParser_parse :: "runtime \<Rightarrow> pybytes \<Rightarrow> pystr \<Rightarrow> py_exc + pystr" where
  "DocxParser_parse rt file_bytes filename =
     try_except
       (try_except
          (case python_docx rt of
             None \<Rightarrow> Inl (ImportError (ascii ''No module named docx''))
           | Some Document \<Rightarrow>
               (case Document file_bytes of
                  Inl e \<Rightarrow> Inl e
                | Inr paragraphs \<Rightarrow> Inr (strip (join_lines [] paragraphs))))
          is_ImportError
          (\<lambda>e. Inr docx_needs_library))
       is_Exception
       (\<lambda>e. Inr (docx_error e))"

definition DocxParser_supports :: "runtime \<Rightarrow> pystr \<Rightarrow> pystr \<Rightarrow> bool" where
  "DocxParser_supports rt mime_type filename =
     (mime_type \<in> set [ascii ''application/msword'',
                        ascii ''application/vnd.openxmlformats-officedocument.wordprocessingml.document'']
      \<or> endswith (str_lower rt filename) (ascii ''.doc'')
      \<or> endswith (str_lower rt filename) (ascii ''.docx''))"

subsection \<open>TextParser\<close>

definition cannot_decode :: "pystr \<Rightarrow> pystr" where
  "cannot_decode filename =
     ascii ''['' @ [0x65E0, 0x6CD5, 0x89E3, 0x7801, 0x6587, 0x672C, 0x6587, 0x4EF6]
     @ ascii '' '' @ filename @ ascii '']''"

definition text_error :: "py_exc \<Rightarrow> pystr" where
  "text_error e =
     ascii ''['' @ [0x6587, 0x672C, 0x6587, 0x4EF6, 0x5904, 0x7406, 0x9519, 0x8BEF]
     @ ascii '': '' @ exc_str e @ ascii '']''"

definition TextParser_parse :: "runtime \<Rightarrow> pybytes \<Rightarrow> pystr \<Rightarrow> py_exc + pystr" where
  "TextParser_parse rt file_bytes filename =
     try_except
       (case decode_utf8 file_bytes of
          Some s \<Rightarrow> Inr s
        | None \<Rightarrow>
            (case decode_gbk rt file_bytes of
               Some s \<Rightarrow> Inr s
             | None \<Rightarrow>
                 (case decode_latin1 file_bytes of
                    Some s \<Rightarrow> Inr s
                  | None \<Rightarrow> Inr (cannot_decode filename))))
       is_Exception
       (\<lambda>e. Inr (text_error e))"

definition TextParser_supports :: "runtime \<Rightarrow> pystr \<Rightarrow> pystr \<Rightarrow> bool" where
  "TextParser_supports rt mime_type filename =
     (startswith mime_type (ascii ''text/'')
      \<or> endswith (str_lower rt filename) (ascii ''.txt'')
      \<or> endswith (str_lower rt filename) (ascii ''.md'')
      \<or> endswith (str_lower rt filename) (ascii ''.csv'')
      \<or> endswith (str_lower rt filename) (ascii ''.json'')
      \<or> endswith (str_lower rt filename) (ascii ''.xml'')
      \<or> endswith (str_lower rt filename) (ascii ''.html'')
      \<or> endswith (str_lower rt filename) (ascii ''.htm''))"

subsection \<open>DocumentParserFactory\<close>

text \<open>
  The subclasses of \<open>DocumentParser\<close>: the three of the module, and any other one a
  caller registers, given by its two methods (which, being foreign code, may raise).
\<close>

datatype parser =
    PDFParser
  | DocxParser
  | TextParser
  | CustomParser "pystr \<Rightarrow> pystr \<Rightarrow> py_exc + bool" "pybytes \<Rightarrow> pystr \<Rightarrow> py_exc + pystr"

fun supports :: "runtime \<Rightarrow> parser \<Rightarrow> pystr \<Rightarrow> pystr \<Rightarrow> py_exc + bool" where
  "supports rt PDFParser mime_type filename = Inr (PDFParser_supports rt mime_type filename)"
| "supports rt DocxParser mime_type filename = Inr (DocxParser_supports rt mime_type filename)"
| "supports rt TextParser mime_type filename = Inr (TextParser_supports rt mime_type filename)"
| "supports rt (CustomParser s p) mime_type filename = s mime_type filename"

fun parse :: "runtime \<Rightarrow> parser \<Rightarrow> pybytes \<Rightarrow> pystr \<Rightarrow> py_exc + pystr" where
  "parse rt PDFParser file_bytes filename = PDFParser_parse rt file_bytes filename"
| "parse rt DocxParser file_bytes filename = DocxParser_parse rt file_bytes filename"
| "parse rt TextParser file_bytes filename = TextParser_parse rt file_bytes filename"
| "parse rt (CustomParser s p) file_bytes filename = p file_bytes filename"

record DocumentParserFactory =
  parsers :: "parser list"

definition DocumentParserFactory_init :: DocumentParserFactory where
  "DocumentParserFactory_init = \<lparr>parsers = [PDFParser, DocxParser, TextParser]\<rparr>"

text \<open>The loop of \<open>get_parser\<close> over \<open>self._parsers\<close>.\<close>

fun get_parser_loop ::
  "runtime \<Rightarrow> parser list \<Rightarrow> pystr \<Rightarrow> pystr \<Rightarrow> py_exc + parser option" where
  "get_parser_loop rt [] mime_type filename = Inr None"
| "get_parser_loop rt (p # ps) mime_type filename =
     (case supports rt p mime_type filename of
        Inl e \<Rightarrow> Inl e
      | Inr b \<Rightarrow> if b then Inr (Some p) else get_parser_loop rt ps mime_type filename)"

definition get_parser ::
  "runtime \<Rightarrow> DocumentParserFactory \<Rightarrow> pystr \<Rightarrow> pystr \<Rightarrow> py_exc + parser option" where
  "get_parser rt self mime_type filename = get_parser_loop rt (parsers self) mime_type filename"

definition register_parser :: "DocumentParserFactory \<Rightarrow> parser \<Rightarrow> DocumentParserFactory" where
  "register_parser self p = self\<lparr>parsers := parsers self @ [p]\<rparr>"

subsection \<open>extract\_file\_content\<close>

definition unsupported_type :: "pystr \<Rightarrow> pystr \<Rightarrow> pystr" where
  "unsupported_type mime_type filename =
     ascii ''['' @ [0x4E0D, 0x652F, 0x6301, 0x7684, 0x6587, 0x4EF6, 0x7C7B, 0x578B]
     @ ascii '': '' @ mime_type @ ascii '' for '' @ filename @ ascii '']''"

definition file_error :: "pystr \<Rightarrow> py_exc \<Rightarrow> pystr" where
  "file_error filename e =
     ascii ''['' @ [0x5904, 0x7406, 0x6587, 0x4EF6] @ ascii '' '' @ filename @ ascii '' ''
     @ [0x65F6, 0x51FA, 0x9519] @ ascii '': '' @ exc_str e @ ascii '']''"

text \<open>
  The module's factory \<open>_parser_factory\<close> is global state that the function reads: it
  is the argument \<open>factory\<close>.
\<close>

definition extract_file_content ::
  "runtime \<Rightarrow> DocumentParserFactory \<Rightarrow> pystr \<Rightarrow> pystr \<Rightarrow> pystr \<Rightarrow> py_exc + pystr" where
  "extract_file_content rt factory base64_data filename mime_type =
     try_except
       (case b64decode base64_data of
          Inl e \<Rightarrow> Inl e
        | Inr file_bytes \<Rightarrow>
            (case get_parser rt factory mime_type filename of
               Inl e \<Rightarrow> Inl e
             | Inr None \<Rightarrow> Inr (unsupported_type mime_type filename)
             | Inr (Some p) \<Rightarrow> parse rt p file_bytes filename))
       is_Exception
       (\<lambda>e. Inr (file_error filename e))"

section \<open>Message processing (src/react\_agent/utils.py)\<close>

text \<open>
  A message's content is a string or a list of items, each a string or a dict. The keys
  of a dict that the code reads are the fields of \<open>item_dict\<close> (\<open>None\<close>: key absent);
  their values are strings, and \<open>metadata\<close> is a dict of strings.
\<close>

record item_dict =
  item_type :: "pystr option"
  item_text :: "pystr option"
  item_source_type :: "pystr option"
  item_data :: "pystr option"
  item_metadata :: "(pystr \<rightharpoonup> pystr) option"
  item_mime_type :: "pystr option"

datatype item = StrItem pystr | DictItem item_dict

datatype msg_content = Str pystr | Items "item list"

definition dict_get :: "'a option \<Rightarrow> 'a \<Rightarrow> 'a" where
  "dict_get v dflt = (case v of None \<Rightarrow> dflt | Some x \<Rightarrow> x)"

definition file_section :: "pystr \<Rightarrow> pystr \<Rightarrow> pystr" where
  "file_section filename file_content =
     [10, 10] @ [0x6587, 0x4EF6, 0x5185, 0x5BB9] @ ascii '' ('' @ filename @ ascii ''):''
     @ [10] @ file_content"

text \<open>The loop over the items, with the list \<open>processed_content\<close> it appends to.\<close>

fun process_items ::
  "runtime \<Rightarrow> DocumentParserFactory \<Rightarrow> item list \<Rightarrow> pystr list \<Rightarrow> py_exc + pystr list" where
  "process_items rt factory [] processed_content = Inr processed_content"
| "process_items rt factory (StrItem s # items) processed_content =
     process_items rt factory items (processed_content @ [s])"
| "process_items rt factory (DictItem d # items) processed_content =
     (if item_type d = Some (ascii ''text'') then
        process_items rt factory items (processed_content @ [dict_get (item_text d) []])
      else if item_type d = Some (ascii ''file'')
              \<and> item_source_type d = Some (ascii ''base64'') then
        (let file_data = dict_get (item_data d) [];
             metadata = dict_get (item_metadata d) Map.empty;
             filename = dict_get (metadata (ascii ''filename'')) (ascii ''unknown_file'');
             mime_type = dict_get (item_mime_type d) (ascii ''application/octet-stream'')
         in case extract_file_content rt factory file_data filename mime_type of
              Inl e \<Rightarrow> Inl e
            | Inr file_content \<Rightarrow>
                process_items rt factory items
                  (processed_content @ [file_section filename file_content]))
      else process_items rt factory items processed_content)"

definition process_message_content ::
  "runtime \<Rightarrow> DocumentParserFactory \<Rightarrow> msg_content \<Rightarrow> py_exc + pystr" where
  "process_message_content rt factory content =
     (case content of
        Str s \<Rightarrow> Inr s
      | Items items \<Rightarrow>
          (case process_items rt factory items [] of
             Inl e \<Rightarrow> Inl e
           | Inr processed_content \<Rightarrow> Inr (strip (concat processed_content))))"

subsection \<open>process\_messages\<close>

text \<open>
  Messages are objects: the caller's list holds references, and \<open>process_messages\<close>
  assigns to an attribute. The store is a list of objects, a reference is an index into
  it, and \<open>model_copy()\<close> (a shallow copy) puts a new object at the end of the store.
  A message has its \<open>content\<close>, its other attributes (\<open>other_fields\<close>), and
  \<open>has_model_copy\<close> is \<open>hasattr(message, 'model_copy')\<close>.
\<close>

record 'a message =
  content :: msg_content
  other_fields :: 'a
  has_model_copy :: bool

type_synonym 'a store = "'a message list"

fun process_messages_loop ::
  "runtime \<Rightarrow> DocumentParserFactory \<Rightarrow> 'a store \<Rightarrow> nat list \<Rightarrow> nat list
     \<Rightarrow> py_exc + ('a store \<times> nat list)" where
  "process_messages_loop rt factory h [] processed_messages = Inr (h, processed_messages)"
| "process_messages_loop rt factory h (message # messages) processed_messages =
     (let (h1, processed_message) =
            (if has_model_copy (h ! message) then (h @ [h ! message], length h)
             else (h, message))
      in case process_message_content rt factory (content (h1 ! message)) of
           Inl e \<Rightarrow> Inl e
         | Inr c \<Rightarrow>
             process_messages_loop rt factory
               (h1[processed_message := (h1 ! processed_message)\<lparr>content := Str c\<rparr>])
               messages (processed_messages @ [processed_message]))"

definition process_messages ::
  "runtime \<Rightarrow> DocumentParserFactory \<Rightarrow> 'a store \<Rightarrow> nat list \<Rightarrow> py_exc + ('a store \<times> nat list)" where
  "process_messages rt factory h messages = process_messages_loop rt factory h messages []"

section \<open>What the specification says of the content processor\<close>

text \<open>
  Section 4.7 of the specification, in its words: a plain-string part contributes
  itself, a part tagged \<open>type=text\<close> its text field, a part tagged \<open>type=file\<close> with an
  embedded-base64 source the output of the facade after a blank line, the label, the file
  name in parentheses, a colon and a newline; any other part contributes nothing.
\<close>

definition spec_label :: pystr where
  "spec_label = [0x6587, 0x4EF6, 0x5185, 0x5BB9]"

definition spec_contribution :: "runtime \<Rightarrow> DocumentParserFactory \<Rightarrow> item \<Rightarrow> pystr" where
  "spec_contribution rt factory p =
     (case p of
        StrItem s \<Rightarrow> s
      | DictItem d \<Rightarrow>
          if item_type d = Some (ascii ''text'') then dict_get (item_text d) []
          else if item_type d = Some (ascii ''file'')
                  \<and> item_source_type d = Some (ascii ''base64'') then
            (let filename = dict_get (dict_get (item_metadata d) Map.empty (ascii ''filename''))
                              (ascii ''unknown_file'')
             in [10, 10] @ spec_label @ ascii '' ('' @ filename @ ascii ''):'' @ [10]
                @ projr (extract_file_content rt factory (dict_get (item_data d) []) filename
                           (dict_get (item_mime_type d) (ascii ''application/octet-stream''))))
          else [])"

section \<open>Example inputs\<close>

text \<open>
  A runtime for the examples: neither optional library is installed, and the GBK codec
  is the fragment that knows ASCII and the one two-byte character C4 E3 (U+4F60).
\<close>

fun gbk_fragment :: "pybytes \<Rightarrow> pystr option" where
  "gbk_fragment [] = Some []"
| "gbk_fragment (b # bs) =
     (if b < 0x80 then map_option ((#) (unat b)) (gbk_fragment bs)
      else (case bs of
              b1 # r \<Rightarrow>
                if b = 0xC4 \<and> b1 = 0xE3 then map_option ((#) 0x4F60) (gbk_fragment r) else None
            | [] \<Rightarrow> None))"

definition example_runtime :: runtime where
  "example_runtime =
     \<lparr>gbk_codec = gbk_fragment, unicode_lower = (\<lambda>s. s), PyPDF2 = None, python_docx = None\<rparr>"

text \<open>A registered parser for \<open>.zip\<close> files.\<close>

definition zip_parser :: "runtime \<Rightarrow> parser" where
  "zip_parser rt =
     CustomParser (\<lambda>mime_type filename. Inr (endswith (str_lower rt filename) (ascii ''.zip'')))
                  (\<lambda>file_bytes filename. Inr (ascii ''zip archive''))"

text \<open>
  The message of section 8 of the specification: a text part \<open>hello\<close> and the file
  \<open>a.txt\<close> of type \<open>text/plain\<close> with the bytes \<open>hi\<close> in base64.
\<close>

definition no_keys :: item_dict where
  "no_keys = \<lparr>item_type = None, item_text = None, item_source_type = None, item_data = None,
              item_metadata = None, item_mime_type = None\<rparr>"

definition example_items :: "item list" where
  "example_items =
     [DictItem (no_keys\<lparr>item_type := Some (ascii ''text''), item_text := Some (ascii ''hello'')\<rparr>),
      DictItem (no_keys\<lparr>item_type := Some (ascii ''file''),
                        item_source_type := Some (ascii ''base64''),
                        item_data := Some (ascii ''aGk=''),
                        item_mime_type := Some (ascii ''text/plain''),
                        item_metadata := Some [ascii ''filename'' \<mapsto> ascii ''a.txt'']\<rparr>)]"

text \<open>
  A message with white space at both ends and inside: a newline with \<open>  hello\<close>, the file
  \<open>a.txt\<close> of type \<open>text/plain\<close> with the bytes of \<open> hi\<close> in base64, and the string
  of a space and a newline.
\<close>

definition example_items_spaces :: "item list" where
  "example_items_spaces =
     [StrItem ([10] @ ascii ''  hello''),
      DictItem (no_keys\<lparr>item_type := Some (ascii ''file''),
                        item_source_type := Some (ascii ''base64''),
                        item_data := Some (ascii ''IGhp''),
                        item_mime_type := Some (ascii ''text/plain''),
                        item_metadata := Some [ascii ''filename'' \<mapsto> ascii ''a.txt'']\<rparr>),
      StrItem (ascii '' '' @ [10])]"

text \<open>
  Two message objects with the same content, a list with the string \<open> hi \<close>: one of a
  class without \<open>model_copy\<close>, one of a class with it. Their other attributes are a role.
\<close>

definition plain_message :: "pystr message" where
  "plain_message =
     \<lparr>content = Items [StrItem (ascii '' hi '')], other_fields = ascii ''human'',
      has_model_copy = False\<rparr>"

definition pydantic_message :: "pystr message" where
  "pydantic_message =
     \<lparr>content = Items [StrItem (ascii '' hi '')], other_fields = ascii ''human'',
      has_model_copy = True\<rparr>"

section \<open>Properties\<close>

subsection \<open>Helper lemmas\<close>

lemma try_except_Exception_returns:
  "\<exists>v. try_except body is_Exception (\<lambda>e. Inr (h e)) = Inr v"
  by (cases body) (simp_all add: try_except_def is_Exception_def)

lemma extract_file_content_returns:
  "\<exists>s. extract_file_content rt factory base64_data filename mime_type = Inr s"
  unfolding extract_file_content_def by (rule try_except_Exception_returns)

subsection \<open>The facade never raises\<close>

text \<open>
  Claim C1. For every factory, and every base64 data, file name and MIME type,
  \<open>extract_file_content\<close> returns a string: whatever the decoding of the payload, the
  lookup of the parser or the parser itself raises is caught by the handler of the function.
\<close>

theorem extract_file_content_never_raises:
  "\<exists>s. extract_file_content rt factory base64_data filename mime_type = Inr s"
  unfolding extract_file_content_def by (rule try_except_Exception_returns)

subsection \<open>The order of the factory\<close>

text \<open>
  Claim C2. On the factory as the module creates it, \<open>get_parser\<close> returns the first of
  the PDF, Word and text parsers, in this order, whose \<open>supports\<close> holds, and nothing
  when none holds; so the PDF parser is chosen whenever it supports the file, also when
  the text parser supports it too.
\<close>

theorem get_parser_priority:
  "get_parser rt DocumentParserFactory_init mime_type filename =
     Inr (if PDFParser_supports rt mime_type filename then Some PDFParser
          else if DocxParser_supports rt mime_type filename then Some DocxParser
          else if TextParser_supports rt mime_type filename then Some TextParser
          else None)
   \<and> get_parser rt DocumentParserFactory_init mime_type filename =
     Inr (List.find (\<lambda>p. supports rt p mime_type filename = Inr True)
            [PDFParser, DocxParser, TextParser])
   \<and> (PDFParser_supports rt mime_type filename \<and> TextParser_supports rt mime_type filename
        \<longrightarrow> get_parser rt DocumentParserFactory_init mime_type filename = Inr (Some PDFParser))"
  by (simp add: get_parser_def DocumentParserFactory_init_def)

theorem get_parser_priority_witness:
  "PDFParser_supports example_runtime (ascii ''text/plain'') (ascii ''report.PDF'')
   \<and> TextParser_supports example_runtime (ascii ''text/plain'') (ascii ''report.PDF'')
   \<and> get_parser example_runtime DocumentParserFactory_init (ascii ''text/plain'')
        (ascii ''report.PDF'') = Inr (Some PDFParser)"
proof -
  have pdf: "PDFParser_supports example_runtime (ascii ''text/plain'') (ascii ''report.PDF'')"
    by (simp add: PDFParser_supports_def str_lower_def is_ascii_def ascii_def endswith_def
        ascii_lower_def)
  have txt_ok: "TextParser_supports example_runtime (ascii ''text/plain'') (ascii ''report.PDF'')"
    by (simp add: TextParser_supports_def ascii_def startswith_def)
  from pdf txt_ok
    get_parser_priority [of example_runtime "ascii ''text/plain''" "ascii ''report.PDF''"]
  show ?thesis by simp
qed

subsection \<open>The text parser\<close>

lemma utf8_hi: "decode_utf8 [0x68, 0x69] = Some (ascii ''hi'')"
  by code_simp

lemma utf8_C4E3: "decode_utf8 [0xC4, 0xE3] = None"
  by code_simp

lemma gbk_C4E3: "decode_gbk example_runtime [0xC4, 0xE3] = Some [0x4F60]"
  by (simp add: decode_gbk_def example_runtime_def)

lemma utf8_FF: "decode_utf8 [0xFF] = None"
  by code_simp

lemma gbk_FF: "decode_gbk example_runtime [0xFF] = None"
  by (simp add: decode_gbk_def example_runtime_def)

lemma latin1_FF: "decode_latin1 [0xFF] = Some [255]"
  by (simp add: decode_latin1_def)

text \<open>
  Claim C3. \<open>TextParser.parse\<close> returns the UTF-8 decoding of the bytes when there is
  one; otherwise their GBK decoding when there is one (so bytes that are invalid UTF-8 and
  valid GBK give the GBK-decoded string); otherwise their Latin-1 decoding.
\<close>

theorem TextParser_parse_order:
  "(decode_utf8 file_bytes = Some s \<longrightarrow> TextParser_parse rt file_bytes filename = Inr s)
   \<and> (decode_utf8 file_bytes = None \<and> decode_gbk rt file_bytes = Some s
        \<longrightarrow> TextParser_parse rt file_bytes filename = Inr s)
   \<and> (decode_utf8 file_bytes = None \<and> decode_gbk rt file_bytes = None
        \<and> decode_latin1 file_bytes = Some s
        \<longrightarrow> TextParser_parse rt file_bytes filename = Inr s)"
  by (simp add: TextParser_parse_def try_except_def)

theorem TextParser_parse_order_witness:
  "decode_utf8 [0x68, 0x69] = Some (ascii ''hi'')
   \<and> TextParser_parse example_runtime [0x68, 0x69] (ascii ''a.txt'') = Inr (ascii ''hi'')
   \<and> decode_utf8 [0xC4, 0xE3] = None
   \<and> decode_gbk example_runtime [0xC4, 0xE3] = Some [0x4F60]
   \<and> TextParser_parse example_runtime [0xC4, 0xE3] (ascii ''a.txt'') = Inr [0x4F60]
   \<and> decode_utf8 [0xFF] = None
   \<and> decode_gbk example_runtime [0xFF] = None
   \<and> decode_latin1 [0xFF] = Some [255]
   \<and> TextParser_parse example_runtime [0xFF] (ascii ''a.txt'') = Inr [255]"
  using TextParser_parse_order [of "[0x68, 0x69]" "ascii ''hi''" example_runtime "ascii ''a.txt''"]
    TextParser_parse_order [of "[0xC4, 0xE3]" "[0x4F60]" example_runtime "ascii ''a.txt''"]
    TextParser_parse_order [of "[0xFF]" "[255]" example_runtime "ascii ''a.txt''"]
    utf8_hi utf8_C4E3 gbk_C4E3 utf8_FF gbk_FF latin1_FF
  by simp

lemma latin1_below_256: "list_all (\<lambda>c. c < 256) (map unat (bs :: pybytes))"
proof (induction bs)
  case Nil
  show ?case by simp
next
  case (Cons b bs)
  have "unat b < 2 ^ LENGTH(8)" by (rule unsigned_less)
  with Cons show ?case by simp
qed

lemma cannot_decode_not_latin1: "\<not> list_all (\<lambda>c. c < 256) (cannot_decode filename)"
  by (simp add: cannot_decode_def ascii_def)

text \<open>
  Claim C10. Latin-1 decodes every byte sequence (each byte is the code point of its
  value). So when the UTF-8 and the GBK decodings both fail, \<open>TextParser.parse\<close> returns
  the Latin-1 decoding, and that is never the placeholder of the branch for bytes no
  codec decodes: the placeholder has code points above 255.
\<close>

theorem latin1_always_decodes:
  "decode_latin1 file_bytes = Some (map unat file_bytes)
   \<and> (decode_utf8 file_bytes = None \<and> decode_gbk rt file_bytes = None
        \<longrightarrow> TextParser_parse rt file_bytes filename = Inr (map unat file_bytes)
            \<and> TextParser_parse rt file_bytes filename \<noteq> Inr (cannot_decode filename))"
proof -
  have "map unat file_bytes \<noteq> cannot_decode filename"
    using latin1_below_256 [of file_bytes] cannot_decode_not_latin1 [of filename] by auto
  then show ?thesis
    by (simp add: TextParser_parse_def try_except_def decode_latin1_def)
qed

theorem latin1_always_decodes_witness:
  "decode_utf8 [0xFF] = None \<and> decode_gbk example_runtime [0xFF] = None
   \<and> decode_latin1 [0xFF] = Some [255]
   \<and> TextParser_parse example_runtime [0xFF] (ascii ''a.txt'') = Inr [255]
   \<and> TextParser_parse example_runtime [0xFF] (ascii ''a.txt'')
       \<noteq> Inr (cannot_decode (ascii ''a.txt''))"
proof -
  have "map unat [0xFF :: 8 word] = [255]" by simp
  with latin1_always_decodes [of "[0xFF]" example_runtime "ascii ''a.txt''"] utf8_FF gbk_FF
  show ?thesis by metis
qed

subsection \<open>The content processor\<close>

lemma ascii_eq_iff: "ascii a = ascii b \<longleftrightarrow> a = b"
  by (simp add: ascii_def inj_map_eq_map inj_of_char)

lemma get_parser_init:
  "get_parser rt DocumentParserFactory_init mime_type filename =
     Inr (if PDFParser_supports rt mime_type filename then Some PDFParser
          else if DocxParser_supports rt mime_type filename then Some DocxParser
          else if TextParser_supports rt mime_type filename then Some TextParser
          else None)"
  by (simp add: get_parser_def DocumentParserFactory_init_def)

lemma b64_hi: "b64decode (ascii ''aGk='') = Inr [0x68, 0x69]"
  by code_simp

lemma supports_a_txt:
  "\<not> PDFParser_supports rt (ascii ''text/plain'') (ascii ''a.txt'')"
  "\<not> DocxParser_supports rt (ascii ''text/plain'') (ascii ''a.txt'')"
  "TextParser_supports rt (ascii ''text/plain'') (ascii ''a.txt'')"
  by (simp_all add: PDFParser_supports_def DocxParser_supports_def TextParser_supports_def
      str_lower_def is_ascii_def ascii_def endswith_def startswith_def ascii_lower_def)

lemma extract_a_txt:
  "extract_file_content rt DocumentParserFactory_init (ascii ''aGk='') (ascii ''a.txt'')
     (ascii ''text/plain'') = Inr (ascii ''hi'')"
  by (simp add: extract_file_content_def b64_hi get_parser_init supports_a_txt
      TextParser_parse_def utf8_hi try_except_def del: decode_utf8.simps)

lemma process_items_returns:
  "\<exists>pc. process_items rt factory items acc = Inr pc"
proof (induction items arbitrary: acc)
  case Nil
  show ?case by simp
next
  case (Cons i items)
  show ?case
  proof (cases i)
    case (StrItem s)
    with Cons show ?thesis by simp
  next
    case (DictItem d)
    obtain fc where "extract_file_content rt factory (dict_get (item_data d) [])
        (dict_get (dict_get (item_metadata d) Map.empty (ascii ''filename'')) (ascii ''unknown_file''))
        (dict_get (item_mime_type d) (ascii ''application/octet-stream'')) = Inr fc"
      using extract_file_content_returns by blast
    with DictItem Cons show ?thesis by (simp add: Let_def)
  qed
qed

lemma process_message_content_returns:
  "\<exists>s. process_message_content rt factory c = Inr s"
proof (cases c)
  case (Str s)
  then show ?thesis by (simp add: process_message_content_def)
next
  case (Items items)
  obtain pc where "process_items rt factory items [] = Inr pc"
    using process_items_returns by blast
  with Items show ?thesis by (simp add: process_message_content_def)
qed

lemma spec_contribution_StrItem: "spec_contribution rt factory (StrItem s) = s"
  by (simp add: spec_contribution_def)

lemma spec_contribution_text:
  "item_type d = Some (ascii ''text'')
   \<Longrightarrow> spec_contribution rt factory (DictItem d) = dict_get (item_text d) []"
  by (simp add: spec_contribution_def)

lemma spec_contribution_file:
  "item_type d = Some (ascii ''file'') \<Longrightarrow> item_source_type d = Some (ascii ''base64'')
   \<Longrightarrow> filename = dict_get (dict_get (item_metadata d) Map.empty (ascii ''filename''))
                         (ascii ''unknown_file'')
   \<Longrightarrow> extract_file_content rt factory (dict_get (item_data d) []) filename
         (dict_get (item_mime_type d) (ascii ''application/octet-stream'')) = Inr fc
   \<Longrightarrow> spec_contribution rt factory (DictItem d) = file_section filename fc"
  by (simp add: spec_contribution_def file_section_def spec_label_def ascii_eq_iff)

lemma spec_contribution_other:
  "item_type d \<noteq> Some (ascii ''text'')
   \<Longrightarrow> \<not> (item_type d = Some (ascii ''file'') \<and> item_source_type d = Some (ascii ''base64''))
   \<Longrightarrow> spec_contribution rt factory (DictItem d) = []"
  by (auto simp add: spec_contribution_def)

lemma process_items_contributions:
  "\<exists>pc. process_items rt factory items acc = Inr pc
        \<and> concat pc = concat acc @ concat (map (spec_contribution rt factory) items)"
proof (induction items arbitrary: acc)
  case Nil
  show ?case by simp
next
  case (Cons i items)
  show ?case
  proof (cases i)
    case (StrItem s)
    with Cons [of "acc @ [s]"] show ?thesis by (simp add: spec_contribution_StrItem)
  next
    case (DictItem d)
    consider (tagged_text) "item_type d = Some (ascii ''text'')"
      | (tagged_file) "item_type d \<noteq> Some (ascii ''text'')" "item_type d = Some (ascii ''file'')"
          "item_source_type d = Some (ascii ''base64'')"
      | (other) "item_type d \<noteq> Some (ascii ''text'')"
          "\<not> (item_type d = Some (ascii ''file'') \<and> item_source_type d = Some (ascii ''base64''))"
      by blast
    then show ?thesis
    proof cases
      case tagged_text
      with DictItem Cons [of "acc @ [dict_get (item_text d) []]"] show ?thesis
        by (simp add: spec_contribution_text)
    next
      case tagged_file
      define filename where "filename =
        dict_get (dict_get (item_metadata d) Map.empty (ascii ''filename'')) (ascii ''unknown_file'')"
      obtain fc where fc: "extract_file_content rt factory (dict_get (item_data d) []) filename
          (dict_get (item_mime_type d) (ascii ''application/octet-stream'')) = Inr fc"
        using extract_file_content_returns by blast
      have "spec_contribution rt factory (DictItem d) = file_section filename fc"
        using tagged_file(2,3) filename_def fc by (rule spec_contribution_file)
      with tagged_file fc DictItem Cons [of "acc @ [file_section filename fc]"] show ?thesis
        by (simp add: Let_def filename_def [symmetric])
    next
      case other
      then have "process_items rt factory (DictItem d # items) acc =
          process_items rt factory items acc"
        by auto
      moreover have "spec_contribution rt factory (DictItem d) = []"
        using other by (rule spec_contribution_other)
      ultimately show ?thesis
        using DictItem Cons [of acc] by simp
    qed
  qed
qed

lemma example_contributions:
  "map (spec_contribution rt DocumentParserFactory_init) example_items =
     [ascii ''hello'',
      [10, 10] @ spec_label @ ascii '' ('' @ ascii ''a.txt'' @ ascii ''):'' @ [10] @ ascii ''hi'']"
  by (simp add: example_items_def no_keys_def spec_contribution_def dict_get_def ascii_eq_iff
      extract_a_txt)

lemma example_strip:
  "strip (concat [ascii ''hello'',
       [10, 10] @ spec_label @ ascii '' ('' @ ascii ''a.txt'' @ ascii ''):'' @ [10] @ ascii ''hi''])
   = ascii ''hello'' @ [10, 10] @ [0x6587, 0x4EF6, 0x5185, 0x5BB9] @ ascii '' (a.txt):''
     @ [10] @ ascii ''hi''"
  by (simp add: strip_def spec_label_def ascii_def isspace_def)

text \<open>
  Claim C9. A content that is already a string is returned as it is; and every content is
  processed to some string, which processing again leaves unchanged: processing twice is
  processing once.
\<close>

theorem process_message_content_idempotent:
  "process_message_content rt factory (Str s) = Inr s
   \<and> (\<exists>t. process_message_content rt factory c = Inr t
          \<and> process_message_content rt factory (Str t) = Inr t)"
proof -
  obtain t where "process_message_content rt factory c = Inr t"
    using process_message_content_returns by blast
  then show ?thesis by (simp add: process_message_content_def)
qed


subsection \<open>Files no parser supports\<close>

lemma get_parser_loop_None:
  "list_all (\<lambda>p. supports rt p mime_type filename = Inr False) ps
   \<Longrightarrow> get_parser_loop rt ps mime_type filename = Inr None"
  by (induction ps) simp_all

lemma extract_unsupported:
  assumes "b64decode base64_data = Inr file_bytes"
    and "get_parser rt factory mime_type filename = Inr None"
  shows "extract_file_content rt factory base64_data filename mime_type =
     Inr (unsupported_type mime_type filename)"
  using assms by (simp add: extract_file_content_def try_except_def)

lemma supports_archive_zip:
  "\<not> PDFParser_supports rt (ascii ''application/zip'') (ascii ''archive.zip'')"
  "\<not> DocxParser_supports rt (ascii ''application/zip'') (ascii ''archive.zip'')"
  "\<not> TextParser_supports rt (ascii ''application/zip'') (ascii ''archive.zip'')"
  by (simp_all add: PDFParser_supports_def DocxParser_supports_def TextParser_supports_def
      str_lower_def is_ascii_def ascii_def endswith_def startswith_def ascii_lower_def)

lemma get_parser_archive_zip:
  "get_parser rt DocumentParserFactory_init (ascii ''application/zip'') (ascii ''archive.zip'')
   = Inr None"
  by (simp add: get_parser_init supports_archive_zip)

text \<open>
  Claim C4, amended. When the payload is well-formed base64 and no parser of the factory
  supports the file, \<open>extract_file_content\<close> returns the bracketed placeholder with the
  MIME type and the file name; its words are the source's Chinese ones (U+4E0D U+652F U+6301
  U+7684 U+6587 U+4EF6 U+7C7B U+578B), not the English rendering of the specification.
  So it is for \<open>application/zip\<close> and \<open>archive.zip\<close> on the factory as created.
\<close>

theorem unsupported_type_placeholder:
  "(b64decode base64_data = Inr file_bytes
    \<and> list_all (\<lambda>p. supports rt p mime_type filename = Inr False) (parsers factory)
    \<longrightarrow> extract_file_content rt factory base64_data filename mime_type =
          Inr (ascii ''['' @ [0x4E0D, 0x652F, 0x6301, 0x7684, 0x6587, 0x4EF6, 0x7C7B, 0x578B]
               @ ascii '': '' @ mime_type @ ascii '' for '' @ filename @ ascii '']''))
   \<and> (b64decode base64_data = Inr file_bytes
    \<longrightarrow> extract_file_content rt DocumentParserFactory_init base64_data (ascii ''archive.zip'')
            (ascii ''application/zip'') =
          Inr (ascii ''['' @ [0x4E0D, 0x652F, 0x6301, 0x7684, 0x6587, 0x4EF6, 0x7C7B, 0x578B]
               @ ascii '': application/zip for archive.zip]''))"
proof -
  have "ascii ''['' @ [0x4E0D, 0x652F, 0x6301, 0x7684, 0x6587, 0x4EF6, 0x7C7B, 0x578B]
          @ ascii '': application/zip for archive.zip]''
        = unsupported_type (ascii ''application/zip'') (ascii ''archive.zip'')"
    by (simp add: unsupported_type_def ascii_def)
  then show ?thesis
    using extract_unsupported [of base64_data file_bytes rt factory mime_type filename]
      extract_unsupported [of base64_data file_bytes rt DocumentParserFactory_init
        "ascii ''application/zip''" "ascii ''archive.zip''"]
      get_parser_loop_None [of rt mime_type filename "parsers factory"]
      get_parser_archive_zip [of rt]
    by (simp add: get_parser_def unsupported_type_def)
qed

theorem unsupported_type_placeholder_witness:
  "b64decode (ascii ''aGk='') = Inr [0x68, 0x69]
   \<and> list_all (\<lambda>p. supports example_runtime p (ascii ''application/zip'') (ascii ''archive.zip'')
                  = Inr False) (parsers DocumentParserFactory_init)
   \<and> extract_file_content example_runtime DocumentParserFactory_init (ascii ''aGk='')
        (ascii ''archive.zip'') (ascii ''application/zip'') =
      Inr (ascii ''['' @ [0x4E0D, 0x652F, 0x6301, 0x7684, 0x6587, 0x4EF6, 0x7C7B, 0x578B]
           @ ascii '': application/zip for archive.zip]'')"
proof -
  have none: "list_all (\<lambda>p. supports example_runtime p (ascii ''application/zip'')
      (ascii ''archive.zip'') = Inr False) (parsers DocumentParserFactory_init)"
    by (simp add: DocumentParserFactory_init_def supports_archive_zip)
  with b64_hi
    unsupported_type_placeholder [of "ascii ''aGk=''" "[0x68, 0x69]" example_runtime
      "ascii ''application/zip''" "ascii ''archive.zip''" DocumentParserFactory_init]
  show ?thesis by blast
qed

text \<open>
  The claim C4 as the specification words it fails: for \<open>application/zip\<close> and
  \<open>archive.zip\<close> the result is not the English string.
\<close>

theorem unsupported_type_english_counterexample:
  "b64decode (ascii ''aGk='') = Inr [0x68, 0x69]
   \<and> supports example_runtime PDFParser (ascii ''application/zip'') (ascii ''archive.zip'')
       = Inr False
   \<and> supports example_runtime DocxParser (ascii ''application/zip'') (ascii ''archive.zip'')
       = Inr False
   \<and> supports example_runtime TextParser (ascii ''application/zip'') (ascii ''archive.zip'')
       = Inr False
   \<and> parsers DocumentParserFactory_init = [PDFParser, DocxParser, TextParser]
   \<and> extract_file_content example_runtime DocumentParserFactory_init (ascii ''aGk='')
        (ascii ''archive.zip'') (ascii ''application/zip'')
       \<noteq> Inr (ascii ''[unsupported file type: application/zip for archive.zip]'')"
proof -
  have "unsupported_type (ascii ''application/zip'') (ascii ''archive.zip'')
        \<noteq> ascii ''[unsupported file type: application/zip for archive.zip]''"
    by (simp add: unsupported_type_def ascii_def)
  then show ?thesis
    using extract_unsupported [OF b64_hi get_parser_archive_zip [of example_runtime]]
    by (simp add: b64_hi supports_archive_zip DocumentParserFactory_init_def)
qed


subsection \<open>Registering a parser\<close>

lemma get_parser_loop_append:
  "get_parser_loop rt (ps @ [p]) mime_type filename =
     (case get_parser_loop rt ps mime_type filename of
        Inl e \<Rightarrow> Inl e
      | Inr (Some q) \<Rightarrow> Inr (Some q)
      | Inr None \<Rightarrow>
          (case supports rt p mime_type filename of
             Inl e \<Rightarrow> Inl e
           | Inr b \<Rightarrow> if b then Inr (Some p) else Inr None))"
  by (induction ps) (simp_all split: sum.splits)

lemma get_parser_register:
  "get_parser rt (register_parser factory p) mime_type filename =
     (case get_parser rt factory mime_type filename of
        Inl e \<Rightarrow> Inl e
      | Inr (Some q) \<Rightarrow> Inr (Some q)
      | Inr None \<Rightarrow>
          (case supports rt p mime_type filename of
             Inl e \<Rightarrow> Inl e
           | Inr b \<Rightarrow> if b then Inr (Some p) else Inr None))"
  by (simp add: get_parser_def register_parser_def get_parser_loop_append)

text \<open>
  Claim C6, amended. \<open>register_parser\<close> puts the new parser at the end of the list,
  after the parsers that were there, which stay in their order. So a file for which the
  factory found a parser before the registration gets the same parser after it, and the new
  parser gets the files it supports that no earlier parser takes (for a parser of
  \<open>.zip\<close> files: the \<open>.zip\<close> files that no earlier parser takes).
\<close>

theorem register_parser_lowest_priority:
  "parsers (register_parser factory p) = parsers factory @ [p]
   \<and> (get_parser rt factory mime_type filename = Inr (Some q)
        \<longrightarrow> get_parser rt (register_parser factory p) mime_type filename = Inr (Some q))
   \<and> (get_parser rt factory mime_type filename = Inr None
        \<and> supports rt p mime_type filename = Inr True
        \<longrightarrow> get_parser rt (register_parser factory p) mime_type filename = Inr (Some p))"
  by (simp add: get_parser_register) (simp add: register_parser_def)

lemma supports_zip_parser:
  "supports rt (zip_parser rt) (ascii ''application/zip'') (ascii ''archive.zip'') = Inr True"
  by (simp add: zip_parser_def str_lower_def is_ascii_def ascii_def endswith_def ascii_lower_def)

lemma get_parser_a_txt:
  "get_parser rt DocumentParserFactory_init (ascii ''text/plain'') (ascii ''a.txt'')
   = Inr (Some TextParser)"
  by (simp add: get_parser_init supports_a_txt)

lemma get_parser_pdf:
  "get_parser rt DocumentParserFactory_init (ascii ''application/pdf'') (ascii ''paper.pdf'')
   = Inr (Some PDFParser)"
  by (simp add: get_parser_init PDFParser_supports_def)

lemma get_parser_docx:
  "get_parser rt DocumentParserFactory_init (ascii ''application/octet-stream'')
     (ascii ''Letter.DOCX'') = Inr (Some DocxParser)"
  by (simp add: get_parser_init PDFParser_supports_def DocxParser_supports_def
      str_lower_def is_ascii_def ascii_def endswith_def ascii_lower_def)

theorem register_parser_lowest_priority_witness:
  "get_parser example_runtime DocumentParserFactory_init (ascii ''application/zip'')
     (ascii ''archive.zip'') = Inr None
   \<and> supports example_runtime (zip_parser example_runtime) (ascii ''application/zip'')
       (ascii ''archive.zip'') = Inr True
   \<and> get_parser example_runtime
       (register_parser DocumentParserFactory_init (zip_parser example_runtime))
       (ascii ''application/zip'') (ascii ''archive.zip'') = Inr (Some (zip_parser example_runtime))
   \<and> get_parser example_runtime DocumentParserFactory_init (ascii ''text/plain'')
       (ascii ''a.txt'') = Inr (Some TextParser)
   \<and> get_parser example_runtime
       (register_parser DocumentParserFactory_init (zip_parser example_runtime))
       (ascii ''text/plain'') (ascii ''a.txt'') = Inr (Some TextParser)
   \<and> get_parser example_runtime DocumentParserFactory_init (ascii ''application/pdf'')
       (ascii ''paper.pdf'') = Inr (Some PDFParser)
   \<and> get_parser example_runtime
       (register_parser DocumentParserFactory_init (zip_parser example_runtime))
       (ascii ''application/pdf'') (ascii ''paper.pdf'') = Inr (Some PDFParser)
   \<and> get_parser example_runtime DocumentParserFactory_init (ascii ''application/octet-stream'')
       (ascii ''Letter.DOCX'') = Inr (Some DocxParser)
   \<and> get_parser example_runtime
       (register_parser DocumentParserFactory_init (zip_parser example_runtime))
       (ascii ''application/octet-stream'') (ascii ''Letter.DOCX'') = Inr (Some DocxParser)"
  using
    register_parser_lowest_priority [of DocumentParserFactory_init "zip_parser example_runtime"
      example_runtime "ascii ''application/zip''" "ascii ''archive.zip''"]
    register_parser_lowest_priority [of DocumentParserFactory_init "zip_parser example_runtime"
      example_runtime "ascii ''text/plain''" "ascii ''a.txt''" TextParser]
    register_parser_lowest_priority [of DocumentParserFactory_init "zip_parser example_runtime"
      example_runtime "ascii ''application/pdf''" "ascii ''paper.pdf''" PDFParser]
    register_parser_lowest_priority [of DocumentParserFactory_init "zip_parser example_runtime"
      example_runtime "ascii ''application/octet-stream''" "ascii ''Letter.DOCX''" DocxParser]
    get_parser_archive_zip [of example_runtime] supports_zip_parser [of example_runtime]
    get_parser_a_txt [of example_runtime] get_parser_pdf [of example_runtime]
    get_parser_docx [of example_runtime]
  by blast

subsection \<open>Text files\<close>

lemma b64_space_hi: "b64decode (ascii ''IGhp'') = Inr [0x20, 0x68, 0x69]"
  by code_simp

lemma utf8_space_hi: "decode_utf8 [0x20, 0x68, 0x69] = Some (ascii '' hi'')"
  by code_simp

lemma extract_TextParser:
  assumes "parsers factory = [PDFParser, DocxParser, TextParser] @ extra"
    and "\<not> PDFParser_supports rt mime_type filename"
    and "\<not> DocxParser_supports rt mime_type filename"
    and "TextParser_supports rt mime_type filename"
    and "b64decode base64_data = Inr file_bytes"
    and "decode_utf8 file_bytes = Some s"
  shows "extract_file_content rt factory base64_data filename mime_type = Inr s"
  using assms
  by (simp add: extract_file_content_def get_parser_def TextParser_parse_def try_except_def)

text \<open>
  Claim C7, amended. For the MIME type \<open>text/plain\<close>, a file name that does not end in
  \<open>.pdf\<close>, \<open>.doc\<close> or \<open>.docx\<close> (in any case), and a base64 payload of bytes that
  decode as UTF-8, \<open>extract_file_content\<close> returns the decoded string as it is, on the
  factory as created and after any registration. White space at its ends is kept.
\<close>

theorem text_plain_verbatim:
  "parsers factory = [PDFParser, DocxParser, TextParser] @ extra
   \<and> \<not> endswith (str_lower rt filename) (ascii ''.pdf'')
   \<and> \<not> endswith (str_lower rt filename) (ascii ''.doc'')
   \<and> \<not> endswith (str_lower rt filename) (ascii ''.docx'')
   \<and> b64decode base64_data = Inr file_bytes
   \<and> decode_utf8 file_bytes = Some s
   \<longrightarrow> extract_file_content rt factory base64_data filename (ascii ''text/plain'') = Inr s"
proof -
  have "TextParser_supports rt (ascii ''text/plain'') filename"
    by (simp add: TextParser_supports_def startswith_def ascii_def)
  moreover have "\<not> PDFParser_supports rt (ascii ''text/plain'') filename"
    if "\<not> endswith (str_lower rt filename) (ascii ''.pdf'')"
    using that by (simp add: PDFParser_supports_def ascii_eq_iff)
  moreover have "\<not> DocxParser_supports rt (ascii ''text/plain'') filename"
    if "\<not> endswith (str_lower rt filename) (ascii ''.doc'')"
      and "\<not> endswith (str_lower rt filename) (ascii ''.docx'')"
    using that by (simp add: DocxParser_supports_def ascii_eq_iff)
  ultimately show ?thesis
    using extract_TextParser [of factory extra rt "ascii ''text/plain''" filename base64_data
        file_bytes s]
    by blast
qed

lemma a_txt_suffixes:
  "\<not> endswith (str_lower rt (ascii ''a.txt'')) (ascii ''.pdf'')"
  "\<not> endswith (str_lower rt (ascii ''a.txt'')) (ascii ''.doc'')"
  "\<not> endswith (str_lower rt (ascii ''a.txt'')) (ascii ''.docx'')"
  by (simp_all add: str_lower_def is_ascii_def ascii_def endswith_def ascii_lower_def)

theorem text_plain_verbatim_witness:
  "parsers DocumentParserFactory_init = [PDFParser, DocxParser, TextParser] @ []
   \<and> \<not> endswith (str_lower example_runtime (ascii ''a.txt'')) (ascii ''.pdf'')
   \<and> \<not> endswith (str_lower example_runtime (ascii ''a.txt'')) (ascii ''.doc'')
   \<and> \<not> endswith (str_lower example_runtime (ascii ''a.txt'')) (ascii ''.docx'')
   \<and> b64decode (ascii ''IGhp'') = Inr [0x20, 0x68, 0x69]
   \<and> decode_utf8 [0x20, 0x68, 0x69] = Some (ascii '' hi'')
   \<and> extract_file_content example_runtime DocumentParserFactory_init (ascii ''IGhp'')
       (ascii ''a.txt'') (ascii ''text/plain'') = Inr (ascii '' hi'')"
proof -
  have "parsers DocumentParserFactory_init = [PDFParser, DocxParser, TextParser] @ []"
    by (simp add: DocumentParserFactory_init_def)
  with a_txt_suffixes [of example_runtime] b64_space_hi utf8_space_hi
    text_plain_verbatim [of DocumentParserFactory_init "[]" example_runtime "ascii ''a.txt''"
      "ascii ''IGhp''" "[0x20, 0x68, 0x69]" "ascii '' hi''"]
  show ?thesis by blast
qed

lemma extract_space_hi:
  "extract_file_content rt DocumentParserFactory_init (ascii ''IGhp'') (ascii ''a.txt'')
     (ascii ''text/plain'') = Inr (ascii '' hi'')"
  using extract_TextParser [of DocumentParserFactory_init "[]" rt "ascii ''text/plain''"
      "ascii ''a.txt''" "ascii ''IGhp''" "[0x20, 0x68, 0x69]" "ascii '' hi''"]
    supports_a_txt [of rt] b64_space_hi utf8_space_hi
  by (simp add: DocumentParserFactory_init_def)

lemma extract_notes_pdf:
  "extract_file_content example_runtime DocumentParserFactory_init (ascii ''aGk='')
     (ascii ''notes.pdf'') (ascii ''text/plain'') = Inr pdf_needs_library"
proof -
  have "PDFParser_supports example_runtime (ascii ''text/plain'') (ascii ''notes.pdf'')"
    by (simp add: PDFParser_supports_def str_lower_def is_ascii_def ascii_def endswith_def
        ascii_lower_def)
  then show ?thesis
    by (simp add: extract_file_content_def b64_hi get_parser_init PDFParser_parse_def
        try_except_def example_runtime_def is_Exception_def)
qed

text \<open>
  The claim C7 as stated fails twice: the payload of \<open> hi\<close> gives a result that starts
  with a space, and with the file name \<open>notes.pdf\<close> the PDF parser is chosen, whose
  result is not the decoded text.
\<close>

theorem text_plain_counterexample:
  "b64decode (ascii ''IGhp'') = Inr [0x20, 0x68, 0x69]
   \<and> decode_utf8 [0x20, 0x68, 0x69] = Some (ascii '' hi'')
   \<and> extract_file_content example_runtime DocumentParserFactory_init (ascii ''IGhp'')
       (ascii ''a.txt'') (ascii ''text/plain'') = Inr (ascii '' hi'')
   \<and> strip (ascii '' hi'') \<noteq> ascii '' hi''
   \<and> b64decode (ascii ''aGk='') = Inr [0x68, 0x69]
   \<and> decode_utf8 [0x68, 0x69] = Some (ascii ''hi'')
   \<and> extract_file_content example_runtime DocumentParserFactory_init (ascii ''aGk='')
       (ascii ''notes.pdf'') (ascii ''text/plain'') \<noteq> Inr (ascii ''hi'')"
proof -
  have "strip (ascii '' hi'') \<noteq> ascii '' hi''"
    by (simp add: strip_def ascii_def isspace_def)
  moreover have "pdf_needs_library \<noteq> ascii ''hi''"
    by (simp add: pdf_needs_library_def ascii_def)
  ultimately show ?thesis
    by (simp add: b64_space_hi utf8_space_hi extract_space_hi b64_hi utf8_hi extract_notes_pdf
        del: decode_utf8.simps)
qed


subsection \<open>process\_messages and the caller's objects\<close>

lemma process_hi:
  "process_message_content rt factory (Items [StrItem (ascii '' hi '')]) = Inr (ascii ''hi'')"
proof -
  have "strip (ascii '' hi '') = ascii ''hi''"
    by (simp add: strip_def ascii_def isspace_def)
  then show ?thesis by (simp add: process_message_content_def)
qed

text \<open>
  When every message has \<open>model_copy\<close>, the store after \<open>process_messages\<close> is the
  store before followed by one new object for each message, with the processed content
  and the other attributes of the message; the result lists the new objects.
\<close>

lemma process_messages_loop_copies:
  "list_all (\<lambda>m. m < length h \<and> has_model_copy (h ! m)) messages
   \<Longrightarrow> process_messages_loop rt factory h messages processed =
       Inr (h @ map (\<lambda>m. (h ! m)\<lparr>content :=
                      Str (projr (process_message_content rt factory (content (h ! m))))\<rparr>)
                  messages,
            processed @ [length h ..< length h + length messages])"
proof (induction messages arbitrary: h processed)
  case Nil
  show ?case by simp
next
  case (Cons m messages)
  from Cons.prems have m: "m < length h" "has_model_copy (h ! m)"
    and rest: "list_all (\<lambda>m. m < length h \<and> has_model_copy (h ! m)) messages"
    by simp_all
  obtain c where c: "process_message_content rt factory (content (h ! m)) = Inr c"
    using process_message_content_returns by blast
  define h2 where "h2 = h @ [(h ! m)\<lparr>content := Str c\<rparr>]"
  have step: "process_messages_loop rt factory h (m # messages) processed =
      process_messages_loop rt factory h2 messages (processed @ [length h])"
    using m c by (simp add: nth_append h2_def)
  have old: "h2 ! a = h ! a" if "a < length h" for a
    using that by (simp add: h2_def nth_append)
  have "list_all (\<lambda>m. m < length h2 \<and> has_model_copy (h2 ! m)) messages"
    using rest by (induction messages) (simp_all add: old, simp add: h2_def)
  from Cons.IH [OF this, of "processed @ [length h]"]
  have "process_messages_loop rt factory h2 messages (processed @ [length h]) =
      Inr (h2 @ map (\<lambda>m. (h2 ! m)\<lparr>content :=
                      Str (projr (process_message_content rt factory (content (h2 ! m))))\<rparr>)
                  messages,
           (processed @ [length h]) @ [length h2 ..< length h2 + length messages])" .
  moreover have "map (\<lambda>m. (h2 ! m)\<lparr>content :=
        Str (projr (process_message_content rt factory (content (h2 ! m))))\<rparr>) messages
      = map (\<lambda>m. (h ! m)\<lparr>content :=
        Str (projr (process_message_content rt factory (content (h ! m))))\<rparr>) messages"
    using rest by (induction messages) (simp_all add: old)
  moreover have "[length h] @ [length h2 ..< length h2 + length messages]
      = [length h ..< length h + length (m # messages)]"
  proof -
    have "[length h ..< Suc (length h + length messages)]
        = length h # [Suc (length h) ..< Suc (length h + length messages)]"
      by (rule upt_conv_Cons) simp
    then show ?thesis by (simp add: h2_def)
  qed
  ultimately show ?case
    using step c by (simp add: h2_def)
qed

lemma process_messages_pydantic:
  "process_messages rt factory [pydantic_message] [0] =
     Inr ([pydantic_message, pydantic_message\<lparr>content := Str (ascii ''hi'')\<rparr>], [1])"
  using process_messages_loop_copies [of "[pydantic_message]" "[0]" rt factory "[]"]
  by (simp add: process_messages_def pydantic_message_def process_hi)

text \<open>
  Claim C8 fails on the code for a message without \<open>model_copy\<close>: the returned list
  holds the caller's own object, whose content the function has replaced.
\<close>

theorem process_messages_changes_original:
  "process_messages example_runtime DocumentParserFactory_init [plain_message] [0] =
     Inr ([plain_message\<lparr>content := Str (ascii ''hi'')\<rparr>], [0])
   \<and> content (plain_message\<lparr>content := Str (ascii ''hi'')\<rparr>) \<noteq> content plain_message"
  by (simp add: process_messages_def plain_message_def process_hi)


subsection \<open>The processed content is trimmed\<close>

lemma strip_decomposition:
  "\<exists>pre suf. s = pre @ strip s @ suf \<and> list_all isspace pre \<and> list_all isspace suf"
proof -
  define t where "t = dropWhile isspace s"
  have s: "s = takeWhile isspace s @ t"
    by (simp add: t_def)
  have "t = rev (dropWhile isspace (rev t)) @ rev (takeWhile isspace (rev t))"
    by (metis rev_append rev_rev_ident takeWhile_dropWhile_id)
  then have t: "t = strip s @ rev (takeWhile isspace (rev t))"
    by (simp only: strip_def t_def)
  have "list_all isspace (takeWhile isspace s)"
    by (simp add: list_all_iff) (metis set_takeWhileD)
  moreover have "list_all isspace (rev (takeWhile isspace (rev t)))"
    by (simp add: list_all_iff) (metis set_takeWhileD)
  moreover have "s = takeWhile isspace s @ strip s @ rev (takeWhile isspace (rev t))"
    using s t by simp
  ultimately show ?thesis by blast
qed

lemma last_dropWhile: "dropWhile P xs \<noteq> [] \<Longrightarrow> last (dropWhile P xs) = last xs"
  by (metis last_appendR takeWhile_dropWhile_id)

lemma strip_ends:
  "strip s = [] \<or> (\<not> isspace (hd (strip s)) \<and> \<not> isspace (last (strip s)))"
proof (cases "strip s = []")
  case True
  then show ?thesis by simp
next
  case False
  define t where "t = dropWhile isspace s"
  define u where "u = dropWhile isspace (rev t)"
  have strip: "strip s = rev u"
    by (simp add: strip_def u_def t_def)
  with False have u: "u \<noteq> []" by simp
  then have "\<not> isspace (hd u)"
    unfolding u_def by (rule hd_dropWhile)
  with u have last_ok: "\<not> isspace (last (strip s))"
    by (simp add: strip last_rev)
  from u have t: "t \<noteq> []"
    by (auto simp add: u_def)
  then have "\<not> isspace (hd t)"
    unfolding t_def by (rule hd_dropWhile)
  moreover have "last u = last (rev t)"
    using u unfolding u_def by (rule last_dropWhile)
  ultimately have "\<not> isspace (hd (strip s))"
    using u t by (simp add: strip hd_rev last_rev)
  with last_ok show ?thesis by simp
qed


lemma spaces_contributions:
  "map (spec_contribution rt DocumentParserFactory_init) example_items_spaces =
     [[10] @ ascii ''  hello'',
      [10, 10] @ spec_label @ ascii '' ('' @ ascii ''a.txt'' @ ascii ''):'' @ [10] @ ascii '' hi'',
      ascii '' '' @ [10]]"
  by (simp add: example_items_spaces_def no_keys_def spec_contribution_def dict_get_def
      ascii_eq_iff extract_space_hi)

lemma spaces_strip:
  "strip (concat [[10] @ ascii ''  hello'',
       [10, 10] @ spec_label @ ascii '' ('' @ ascii ''a.txt'' @ ascii ''):'' @ [10] @ ascii '' hi'',
       ascii '' '' @ [10]])
   = ascii ''hello'' @ [10, 10] @ [0x6587, 0x4EF6, 0x5185, 0x5BB9] @ ascii '' (a.txt):''
     @ [10] @ ascii '' hi''"
  by (simp add: strip_def spec_label_def ascii_def isspace_def)

text \<open>
  Claim C5. On a list of parts, \<open>process_message_content\<close> returns the concatenation,
  in order, of what section 4.7 of the specification gives for each part (a plain string
  as it is, the text field of a part tagged text, and for a part tagged file with a base64
  source the output of \<open>extract_file_content\<close> after the header with the label and
  the file name), with the white space at both ends removed: the concatenation is white
  space, then the result, then white space, and the result is empty or neither begins nor
  ends with white space. On the example message of section 8 the result is \<open>hello\<close>,
  two newlines, the label U+6587 U+4EF6 U+5185 U+5BB9, \<open> (a.txt):\<close>, a newline and
  \<open>hi\<close>; on the example with white space, the newline and spaces before \<open>hello\<close> and
  the space and newline after the file's text are gone and the space inside is kept.
\<close>

theorem process_message_content_concatenates:
  "(\<exists>r pre suf.
      process_message_content rt factory (Items items) = Inr r
      \<and> concat (map (spec_contribution rt factory) items) = pre @ r @ suf
      \<and> list_all isspace pre \<and> list_all isspace suf
      \<and> (r = [] \<or> (\<not> isspace (hd r) \<and> \<not> isspace (last r))))
   \<and> process_message_content rt factory (Items items) =
       Inr (strip (concat (map (spec_contribution rt factory) items)))
   \<and> process_message_content rt DocumentParserFactory_init (Items example_items) =
       Inr (ascii ''hello'' @ [10, 10] @ [0x6587, 0x4EF6, 0x5185, 0x5BB9] @ ascii '' (a.txt):''
            @ [10] @ ascii ''hi'')
   \<and> concat (map (spec_contribution rt DocumentParserFactory_init) example_items_spaces) =
       [10] @ ascii ''  hello'' @ [10, 10] @ [0x6587, 0x4EF6, 0x5185, 0x5BB9]
       @ ascii '' (a.txt):'' @ [10] @ ascii '' hi '' @ [10]
   \<and> process_message_content rt DocumentParserFactory_init (Items example_items_spaces) =
       Inr (ascii ''hello'' @ [10, 10] @ [0x6587, 0x4EF6, 0x5185, 0x5BB9] @ ascii '' (a.txt):''
            @ [10] @ ascii '' hi'')"
proof -
  have general: "process_message_content rt f (Items its) =
      Inr (strip (concat (map (spec_contribution rt f) its)))" for f its
  proof -
    obtain pc where "process_items rt f its [] = Inr pc"
      and "concat pc = concat (map (spec_contribution rt f) its)"
      using process_items_contributions [of rt f its "[]"] by auto
    then show ?thesis by (simp add: process_message_content_def)
  qed
  define whole where "whole = concat (map (spec_contribution rt factory) items)"
  obtain pre suf where "whole = pre @ strip whole @ suf"
    and "list_all isspace pre" and "list_all isspace suf"
    using strip_decomposition [of whole] by blast
  moreover have "strip whole = [] \<or> (\<not> isspace (hd (strip whole)) \<and> \<not> isspace (last (strip whole)))"
    by (rule strip_ends)
  ultimately have trimmed: "\<exists>r pre suf.
      process_message_content rt factory (Items items) = Inr r
      \<and> concat (map (spec_contribution rt factory) items) = pre @ r @ suf
      \<and> list_all isspace pre \<and> list_all isspace suf
      \<and> (r = [] \<or> (\<not> isspace (hd r) \<and> \<not> isspace (last r)))"
    unfolding whole_def using general [of factory items] by blast
  have spaces: "concat (map (spec_contribution rt DocumentParserFactory_init) example_items_spaces) =
       [10] @ ascii ''  hello'' @ [10, 10] @ [0x6587, 0x4EF6, 0x5185, 0x5BB9]
       @ ascii '' (a.txt):'' @ [10] @ ascii '' hi '' @ [10]"
    by (simp only: spaces_contributions) (simp add: spec_label_def ascii_def)
  have ex1: "process_message_content rt DocumentParserFactory_init (Items example_items) =
       Inr (ascii ''hello'' @ [10, 10] @ [0x6587, 0x4EF6, 0x5185, 0x5BB9] @ ascii '' (a.txt):''
            @ [10] @ ascii ''hi'')"
    by (simp only: general example_contributions example_strip)
  have ex2: "process_message_content rt DocumentParserFactory_init (Items example_items_spaces) =
       Inr (ascii ''hello'' @ [10, 10] @ [0x6587, 0x4EF6, 0x5185, 0x5BB9] @ ascii '' (a.txt):''
            @ [10] @ ascii '' hi'')"
    by (simp only: general spaces_contributions spaces_strip)
  from trimmed general [of factory items] ex1 spaces ex2 show ?thesis
    by (intro conjI)
qed

subsection \<open>A registered parser does not take a file an earlier parser takes\<close>

lemma supports_notes_zip:
  "\<not> PDFParser_supports rt (ascii ''text/plain'') (ascii ''notes.zip'')"
  "\<not> DocxParser_supports rt (ascii ''text/plain'') (ascii ''notes.zip'')"
  "TextParser_supports rt (ascii ''text/plain'') (ascii ''notes.zip'')"
  "supports rt (zip_parser rt) (ascii ''text/plain'') (ascii ''notes.zip'') = Inr True"
  by (simp_all add: PDFParser_supports_def DocxParser_supports_def TextParser_supports_def
      zip_parser_def str_lower_def is_ascii_def ascii_def endswith_def startswith_def
      ascii_lower_def)

text \<open>
  The claim C6 as stated fails: after the registration of a parser that supports every
  \<open>.zip\<close> file, the file \<open>notes.zip\<close> of type \<open>text/plain\<close>, which that parser
  supports, still goes to the text parser.
\<close>

theorem register_parser_zip_counterexample:
  "supports example_runtime (zip_parser example_runtime) (ascii ''text/plain'')
     (ascii ''notes.zip'') = Inr True
   \<and> get_parser example_runtime
       (register_parser DocumentParserFactory_init (zip_parser example_runtime))
       (ascii ''text/plain'') (ascii ''notes.zip'') = Inr (Some TextParser)
   \<and> TextParser \<noteq> zip_parser example_runtime"
  by (simp add: get_parser_register get_parser_init supports_notes_zip) (simp add: zip_parser_def)


end
